theory Spec2Isabelle
  imports Complex_Main
begin

section \<open>The mediapipe-face-mesh extension\<close>

text \<open>
  The repository holds two versions of one jsPsych extension class,
  \<^verbatim>\<open>MediapipeFacemeshExtension\<close>: \<^verbatim>\<open>src/src/index.ts\<close> and
  \<^verbatim>\<open>src/packages/extension-mediapipe-face-mesh/src/index.ts\<close>. Their text is the same
  except for \<^verbatim>\<open>initialize\<close> and \<^verbatim>\<open>on_load\<close> (the package version reads
  \<^verbatim>\<open>useFullTracking\<close> and prints its parameters) and for \<^verbatim>\<open>onFaceLandmarkerResult\<close>
  (the package version builds an \<^verbatim>\<open>IFaceTrackingResult\<close>, the other one an object for Unity).
  The functions below take the file as their first argument wherever the two differ.
\<close>

datatype impl = SrcIndex | PkgIndex

subsection \<open>Data\<close>

text \<open>
  JavaScript numbers are written as reals. The only arithmetic of the class is a negation
  and a division by 100 in the Unity object; no statement below depends on rounding.
  An \<^verbatim>\<open>Euler\<close>, a \<^verbatim>\<open>Vector3\<close> and an object \<^verbatim>\<open>{x, y, z}\<close> are triples.
\<close>

datatype xyz = XYZ (vx: real) (vy: real) (vz: real)

type_synonym Euler = xyz
type_synonym Vector3 = xyz
type_synonym matrix = "real list"

text \<open>\<^verbatim>\<open>new Euler()\<close> and \<^verbatim>\<open>new Vector3()\<close> of three.js: all components zero.\<close>

definition new_Euler :: Euler where
  "new_Euler = XYZ 0 0 0"

definition new_Vector3 :: Vector3 where
  "new_Vector3 = XYZ 0 0 0"

text \<open>
  The decomposition of a matrix is the work of three.js, which is not part of the repository:
  \<^verbatim>\<open>new Euler().setFromRotationMatrix(new Matrix4().fromArray(m))\<close> and
  \<^verbatim>\<open>new Vector3().setFromMatrixPosition(new Matrix4().fromArray(m))\<close> are parameters.
\<close>

record three =
  setFromRotationMatrix :: "matrix \<Rightarrow> Euler"
  setFromMatrixPosition :: "matrix \<Rightarrow> Vector3"

text \<open>The declarations at the end of \<^verbatim>\<open>src/src/index.ts\<close>.\<close>

record NormalizedLandmark =
  lx :: real
  ly :: real
  lz :: real

record BlendshapeCategory =
  categoryName :: string
  score :: real

text \<open>
  A \<^verbatim>\<open>Blendshape\<close> is its \<^verbatim>\<open>categories\<close>, a \<^verbatim>\<open>FacialTransformationMatrix\<close> its
  \<^verbatim>\<open>data\<close>, a \<^verbatim>\<open>FaceGeometry\<close> the list that
  \<^verbatim>\<open>getPoseTransformMatrix().getPackedDataList()\<close> returns. An optional field that is
  \<^verbatim>\<open>undefined\<close> is \<open>None\<close>.
\<close>

record FaceLandmarkerResult =
  faceBlendshapes :: "BlendshapeCategory list list option"
  facialTransformationMatrixes :: "matrix list option"
  landmarks :: "NormalizedLandmark list list option"

record Results =
  multiFaceGeometry :: "matrix list"

text \<open>
  The object given to the listeners and pushed on the log. In an \<^verbatim>\<open>IFaceTrackingResult\<close>
  a property that is missing and a property that holds \<^verbatim>\<open>undefined\<close> are both \<open>None\<close>:
  reading the property gives \<^verbatim>\<open>undefined\<close> in both cases, and JSON leaves both out.
  The \<^verbatim>\<open>blendshapes\<close> object of the Unity data is the list of its own properties in the
  order in which JavaScript enumerates them (see \<open>set_property\<close> below).
\<close>

record IFaceTrackingResult =
  frame_id :: "nat option"
  transformation :: "matrix option"
  rotation :: "Euler option"
  translation :: "Vector3 option"
  blendshapes :: "(string \<times> real) list option"

record unityData =
  u_landmarks :: "real list"
  u_orientation :: string
  u_blendshapes :: "(string \<times> real) list"
  u_rotation :: xyz
  u_translation :: xyz

datatype chunk = Tracking IFaceTrackingResult | Unity unityData

text \<open>
  A listener is a function object; the registry compares listeners by identity, so a listener
  is its identity here. What a listener does with a result is its own business; the class
  sees only whether the call returns or throws, which is the parameter \<open>T\<close> of the functions
  below (\<open>T l r\<close>: listener \<open>l\<close> throws on \<open>r\<close>). Listeners are taken not to call back into the
  extension while a result is being delivered.
\<close>

type_synonym listener = nat
type_synonym stream = nat

datatype error = TypeError | ListenerError listener | InitializationFailure

datatype console_line = Warn string | LogTrackedChunks nat | LogParams

text \<open>
  The parameters of \<^verbatim>\<open>initialize\<close> and \<^verbatim>\<open>on_load\<close>, each of which may be missing
  altogether. \<^verbatim>\<open>locateFile\<close> is only handed on to \<^verbatim>\<open>FaceMesh\<close> and is left out.
\<close>

record init_params =
  useFaceLandmarker :: "bool option"
  useFullTracking :: "bool option"

record load_params =
  record_p :: "bool option"

subsection \<open>The instance and its surroundings\<close>

text \<open>
  The first eleven fields are the fields of the class; \<open>videoElement\<close>, \<open>canvasElement\<close>,
  \<open>faceMesh\<close> and \<open>faceLandmarker\<close> say whether the object has been created. The rest is the
  part of the browser that the class acts on:
  \<^item> \<open>pending\<close>: the handles of the animation-frame requests not yet run or cancelled,
    \<open>nextHandle\<close>: the handle the next \<^verbatim>\<open>requestAnimationFrame\<close> returns;
  \<^item> \<open>resultsBound\<close>: a \<^verbatim>\<open>FaceMesh\<close> object of the instance has been given
    \<^verbatim>\<open>onMediaPipeResult\<close> through \<^verbatim>\<open>onResults\<close>;
  \<^item> \<open>metadataHandler\<close>: a video element with a source has been given the
    \<^verbatim>\<open>onloadedmetadata\<close> handler;
  \<^item> \<open>suspended\<close>: the number of \<^verbatim>\<open>processFrame\<close> calls waiting at
    \<^verbatim>\<open>await this.faceMesh.send(...)\<close>;
  \<^item> \<open>calls\<close>: every call of a listener so far, in order, with its argument;
  \<^item> \<open>decomposed\<close>: the matrices handed to three.js so far, one entry for each call;
  \<^item> \<open>console\<close>: the lines printed.
\<close>

record world =
  recordedChunks :: "chunk list"
  animationFrameId :: "nat option"
  mediaStream :: "stream option"
  videoElement :: bool
  canvasElement :: bool
  faceMesh :: bool
  faceLandmarker :: bool
  usingNewAPI :: bool
  fullTracking :: bool
  onResultCallbacks :: "listener list"
  recordTracks :: bool
  pending :: "nat list"
  nextHandle :: nat
  resultsBound :: bool
  metadataHandler :: bool
  suspended :: nat
  calls :: "(listener \<times> chunk) list"
  decomposed :: "matrix list"
  console :: "console_line list"

text \<open>The instance after \<^verbatim>\<open>new MediapipeFacemeshExtension(jsPsych)\<close>.\<close>

definition new_extension :: world where
  "new_extension =
     \<lparr>recordedChunks = [], animationFrameId = None, mediaStream = None,
      videoElement = False, canvasElement = False, faceMesh = False, faceLandmarker = False,
      usingNewAPI = False, fullTracking = False, onResultCallbacks = [], recordTracks = False,
      pending = [], nextHandle = 1, resultsBound = False, metadataHandler = False,
      suspended = 0, calls = [], decomposed = [], console = []\<rparr>"

subsection \<open>Array operations\<close>

text \<open>\<^verbatim>\<open>Array.prototype.indexOf\<close>: the first index of the element, \<open>-1\<close> when there is none.\<close>

fun indexOf :: "'a list \<Rightarrow> 'a \<Rightarrow> int" where
  "indexOf [] a = - 1"
| "indexOf (x # xs) a =
     (if x = a then 0 else (let i = indexOf xs a in if i < 0 then - 1 else i + 1))"

text \<open>
  \<^verbatim>\<open>Array.prototype.splice(start, deleteCount)\<close> with no items to insert: a negative
  \<open>start\<close> counts from the end, and the count is clamped to what is left.
\<close>

definition splice :: "'a list \<Rightarrow> int \<Rightarrow> int \<Rightarrow> 'a list" where
  "splice xs start deleteCount =
     (let len = int (length xs);
          s = (if start < 0 then max (len + start) 0 else min start len);
          d = min (max deleteCount 0) (len - s)
      in take (nat s) xs @ drop (nat (s + d)) xs)"

text \<open>
  An object used as a dictionary, as \<^verbatim>\<open>blendshapesObj\<close> is: the list of its own properties
  in enumeration order. JavaScript lists the keys that are array indices first, in
  ascending numeric order, and the other string keys after them in the order of their
  creation. An array index is the canonical decimal form of an integer from \<open>0\<close> to
  \<open>2\<^sup>3\<^sup>2 - 2\<close>: digits only, with no leading zero.
\<close>

definition is_digit :: "char \<Rightarrow> bool" where
  "is_digit c \<longleftrightarrow> c \<in> set ''0123456789''"

definition digit_value :: "char \<Rightarrow> nat" where
  "digit_value c = length (takeWhile (\<lambda>d. d \<noteq> c) ''0123456789'')"

definition decimal :: "string \<Rightarrow> nat" where
  "decimal k = fold (\<lambda>c n. 10 * n + digit_value c) k 0"

definition array_index :: "string \<Rightarrow> nat option" where
  "array_index k =
     (if k \<noteq> [] \<and> list_all is_digit k \<and> (k = ''0'' \<or> hd k \<noteq> CHR ''0'')
         \<and> decimal k < 2 ^ 32 - 1
      then Some (decimal k) else None)"

text \<open>A new property whose key is the array index \<open>n\<close> goes before the first key that is
  not a smaller array index.\<close>

fun insert_index :: "nat \<Rightarrow> string \<Rightarrow> 'v \<Rightarrow> (string \<times> 'v) list \<Rightarrow> (string \<times> 'v) list" where
  "insert_index n k v [] = [(k, v)]"
| "insert_index n k v ((k', v') # ps) =
     (case array_index k' of
        Some n' \<Rightarrow>
          (if n' < n then (k', v') # insert_index n k v ps else (k, v) # (k', v') # ps)
      | None \<Rightarrow> (k, v) # (k', v') # ps)"

text \<open>
  The assignment \<^verbatim>\<open>obj[k] = v\<close> on an object literal, for a value \<open>v\<close> that is an object.
  The key \<^verbatim>\<open>__proto__\<close> is the accessor inherited from \<^verbatim>\<open>Object.prototype\<close>: assigning
  an object to it replaces the prototype and creates no own property. An existing
  property keeps its place and gets the new value.
\<close>

definition set_property :: "string \<Rightarrow> 'v \<Rightarrow> (string \<times> 'v) list \<Rightarrow> (string \<times> 'v) list" where
  "set_property k v obj =
     (if k = ''__proto__'' then obj
      else if k \<in> set (map fst obj)
      then map (\<lambda>(k', v'). if k' = k then (k', v) else (k', v')) obj
      else (case array_index k of
              Some n \<Rightarrow> insert_index n k v obj
            | None \<Rightarrow> obj @ [(k, v)]))"

text \<open>
  \<^verbatim>\<open>Array.prototype.forEach\<close> over the listeners: the calls made, and the exception when a
  listener throws, which ends the loop.
\<close>

fun forEach :: "(listener \<Rightarrow> chunk \<Rightarrow> bool) \<Rightarrow> listener list \<Rightarrow> chunk
    \<Rightarrow> (listener \<times> chunk) list \<times> error option" where
  "forEach T [] r = ([], None)"
| "forEach T (cb # cbs) r =
     (if T cb r then ([(cb, r)], Some (ListenerError cb))
      else (let (cs, e) = forEach T cbs r in ((cb, r) # cs, e)))"

subsection \<open>The methods\<close>

definition requestAnimationFrame :: "world \<Rightarrow> nat \<times> world" where
  "requestAnimationFrame w =
     (nextHandle w, w\<lparr>pending := pending w @ [nextHandle w], nextHandle := Suc (nextHandle w)\<rparr>)"

definition stopAnimationFrame :: "world \<Rightarrow> world" where
  "stopAnimationFrame w =
     (case animationFrameId w of
        None \<Rightarrow> w
      | Some h \<Rightarrow> w\<lparr>pending := removeAll h (pending w)\<rparr>)"

text \<open>
  \<^verbatim>\<open>initialize\<close>; \<open>loads\<close> says whether the awaited calls resolve. The flags are
  assigned before the first \<^verbatim>\<open>await\<close>. With the new API the landmarker is assigned once
  it has been created; with the old API the \<^verbatim>\<open>FaceMesh\<close> object is assigned at once and
  its \<^verbatim>\<open>initialize()\<close> is awaited afterwards. A promise that rejects is the error
  \<open>InitializationFailure\<close>.
\<close>

definition initialize :: "impl \<Rightarrow> init_params option \<Rightarrow> bool \<Rightarrow> world \<Rightarrow> world \<times> error option" where
  "initialize i params loads w =
     (let w0 = (case i of PkgIndex \<Rightarrow> w\<lparr>console := console w @ [LogParams]\<rparr> | SrcIndex \<Rightarrow> w);
          w1 = w0\<lparr>usingNewAPI :=
                 (case params of None \<Rightarrow> False
                  | Some p \<Rightarrow> (case useFaceLandmarker p of None \<Rightarrow> False | Some b \<Rightarrow> b))\<rparr>;
          w2 = (case i of
                  PkgIndex \<Rightarrow> w1\<lparr>fullTracking :=
                    (case params of None \<Rightarrow> False
                     | Some p \<Rightarrow> (case useFullTracking p of None \<Rightarrow> False | Some b \<Rightarrow> b))\<rparr>
                | SrcIndex \<Rightarrow> w1)
      in if usingNewAPI w2
         then (if loads then (w2\<lparr>faceLandmarker := True\<rparr>, None)
               else (w2, Some InitializationFailure))
         else (w2\<lparr>faceMesh := True\<rparr>, if loads then None else Some InitializationFailure))"

text \<open>
  \<^verbatim>\<open>on_start\<close>; \<open>camera\<close> is what \<^verbatim>\<open>jsPsych.pluginAPI.getCameraStream()\<close> returns.
  Removing the old elements from the document, and muting and playing the new video, change
  nothing that is kept track of here. Without a camera the method returns after the
  warning; with the old API, \<^verbatim>\<open>this.faceMesh.onResults\<close> is a \<^verbatim>\<open>TypeError\<close> when
  \<^verbatim>\<open>initialize\<close> has not created the object.
\<close>

definition on_start :: "stream option \<Rightarrow> world \<Rightarrow> world \<times> error option" where
  "on_start camera w =
     (let w1 = w\<lparr>canvasElement := True, videoElement := True, mediaStream := camera\<rparr>
      in case camera of
           None \<Rightarrow> (w1\<lparr>console := console w1 @ [Warn ''Camera not initialized.'']\<rparr>, None)
         | Some s \<Rightarrow>
             (let w2 = w1\<lparr>metadataHandler := True\<rparr>
              in if \<not> usingNewAPI w2
                 then (if faceMesh w2 then (w2\<lparr>resultsBound := True\<rparr>, None)
                       else (w2, Some TypeError))
                 else (w2, None)))"

text \<open>The handler that \<^verbatim>\<open>on_start\<close> assigns to \<^verbatim>\<open>videoElement.onloadedmetadata\<close>.\<close>

definition onloadedmetadata :: "world \<Rightarrow> world" where
  "onloadedmetadata w =
     (let (h, w1) = requestAnimationFrame (stopAnimationFrame w)
      in w1\<lparr>animationFrameId := Some h\<rparr>)"

definition on_load :: "impl \<Rightarrow> load_params option \<Rightarrow> world \<Rightarrow> world" where
  "on_load i params w =
     (let w0 = (case i of PkgIndex \<Rightarrow> w\<lparr>console := console w @ [LogParams]\<rparr> | SrcIndex \<Rightarrow> w)
      in w0\<lparr>recordedChunks := [],
            recordTracks :=
              (case params of None \<Rightarrow> False
               | Some p \<Rightarrow> (case record_p p of None \<Rightarrow> False | Some b \<Rightarrow> b))\<rparr>)"

text \<open>\<^verbatim>\<open>on_finish\<close>: the new state and the value of \<^verbatim>\<open>face_mesh\<close> in the object returned.\<close>

definition on_finish :: "world \<Rightarrow> world \<times> chunk list" where
  "on_finish w =
     (let w1 = w\<lparr>console := console w @ [LogTrackedChunks (length (recordedChunks w))]\<rparr>;
          w2 = stopAnimationFrame w1;
          w3 = w2\<lparr>recordTracks := False\<rparr>
      in (w3, recordedChunks w3))"

definition addTrackingResultCallback :: "listener \<Rightarrow> world \<Rightarrow> world" where
  "addTrackingResultCallback callback w =
     w\<lparr>onResultCallbacks := onResultCallbacks w @ [callback]\<rparr>"

definition removeTrackingResultCallback :: "listener \<Rightarrow> world \<Rightarrow> world" where
  "removeTrackingResultCallback callback w =
     w\<lparr>onResultCallbacks :=
         splice (onResultCallbacks w) (indexOf (onResultCallbacks w) callback) 1\<rparr>"

text \<open>
  The last two lines of both result handlers:
  \<^verbatim>\<open>if (this.recordTracks) this.recordedChunks.push(result);\<close>
  \<^verbatim>\<open>this.onResultCallbacks.forEach((cb) => cb(result));\<close>
\<close>

definition record_and_deliver :: "(listener \<Rightarrow> chunk \<Rightarrow> bool) \<Rightarrow> chunk \<Rightarrow> world
    \<Rightarrow> world \<times> error option" where
  "record_and_deliver T result w =
     (let w1 = (if recordTracks w then w\<lparr>recordedChunks := recordedChunks w @ [result]\<rparr> else w);
          (cs, e) = forEach T (onResultCallbacks w1) result
      in (w1\<lparr>calls := calls w1 @ cs\<rparr>, e))"

text \<open>The object that \<^verbatim>\<open>onMediaPipeResult\<close> builds from a face geometry.\<close>

definition legacy_result :: "three \<Rightarrow> world \<Rightarrow> matrix \<Rightarrow> IFaceTrackingResult" where
  "legacy_result th w transformationMatrix =
     \<lparr>frame_id = animationFrameId w,
      transformation = Some transformationMatrix,
      rotation = Some (setFromRotationMatrix th transformationMatrix),
      translation = Some (setFromMatrixPosition th transformationMatrix),
      blendshapes = None\<rparr>"

definition onMediaPipeResult :: "(listener \<Rightarrow> chunk \<Rightarrow> bool) \<Rightarrow> three \<Rightarrow> Results \<Rightarrow> world
    \<Rightarrow> world \<times> error option" where
  "onMediaPipeResult T th results w =
     (case multiFaceGeometry results of
        [] \<Rightarrow> (w, None)
      | g # _ \<Rightarrow>
          record_and_deliver T (Tracking (legacy_result th w g))
            (w\<lparr>decomposed := decomposed w @ [g, g]\<rparr>))"

text \<open>
  Both versions of \<^verbatim>\<open>onFaceLandmarkerResult\<close> start with
  \<^verbatim>\<open>if (results.facialTransformationMatrixes?.length)\<close> and read
  \<^verbatim>\<open>results.facialTransformationMatrixes[0].data\<close> inside: the matrix of the first face,
  when the array is there and not empty. Inside the \<^verbatim>\<open>if\<close> three.js is called twice
  with that matrix.
\<close>

definition first_matrix :: "FaceLandmarkerResult \<Rightarrow> matrix option" where
  "first_matrix results =
     (case facialTransformationMatrixes results of Some (m # _) \<Rightarrow> Some m | _ \<Rightarrow> None)"

definition decompositions :: "matrix option \<Rightarrow> matrix list" where
  "decompositions mo = (case mo of Some m \<Rightarrow> [m, m] | None \<Rightarrow> [])"

text \<open>
  \<^verbatim>\<open>onFaceLandmarkerResult\<close> of the package: the object built, and the matrices decomposed
  on the way. The variables \<^verbatim>\<open>transformationMatrix\<close>, \<^verbatim>\<open>rotation\<close>, \<^verbatim>\<open>translation\<close> and
  \<^verbatim>\<open>blendshapes\<close> stay \<^verbatim>\<open>undefined\<close> unless assigned.
\<close>

definition pkg_result :: "three \<Rightarrow> world \<Rightarrow> FaceLandmarkerResult
    \<Rightarrow> IFaceTrackingResult \<times> matrix list" where
  "pkg_result th w results =
     (let transformationMatrix = first_matrix results;
          rotation_v = map_option (setFromRotationMatrix th) transformationMatrix;
          translation_v = map_option (setFromMatrixPosition th) transformationMatrix;
          blendshapes_v =
            (case faceBlendshapes results of
               Some (cats # _) \<Rightarrow> Some (map (\<lambda>c. (categoryName c, score c)) cats)
             | _ \<Rightarrow> None)
      in (if fullTracking w
          then \<lparr>frame_id = animationFrameId w, transformation = transformationMatrix,
                rotation = rotation_v, translation = translation_v,
                blendshapes = blendshapes_v\<rparr>
          else \<lparr>frame_id = animationFrameId w, transformation = transformationMatrix,
                rotation = rotation_v, translation = translation_v,
                blendshapes = None\<rparr>,
          decompositions transformationMatrix))"

text \<open>
  \<^verbatim>\<open>onFaceLandmarkerResult\<close> of \<^verbatim>\<open>src/src/index.ts\<close>, likewise. Here \<^verbatim>\<open>rotation\<close> and
  \<^verbatim>\<open>translation\<close> start as \<^verbatim>\<open>new Euler()\<close> and \<^verbatim>\<open>new Vector3()\<close>.
\<close>

definition src_result :: "three \<Rightarrow> FaceLandmarkerResult \<Rightarrow> unityData \<times> matrix list" where
  "src_result th results =
     (let rotation_v =
            (case first_matrix results of
               Some m \<Rightarrow> setFromRotationMatrix th m | None \<Rightarrow> new_Euler);
          translation_v =
            (case first_matrix results of
               Some m \<Rightarrow> setFromMatrixPosition th m | None \<Rightarrow> new_Vector3);
          landmarksFlat =
            (case landmarks results of
               Some (lms # _) \<Rightarrow> concat (map (\<lambda>lm. [lx lm, ly lm, lz lm]) lms)
             | _ \<Rightarrow> []);
          blendshapesObj =
            (case faceBlendshapes results of
               Some (cats # _) \<Rightarrow>
                 fold (\<lambda>cat obj. set_property (categoryName cat) (score cat) obj) cats []
             | _ \<Rightarrow> [])
      in (\<lparr>u_landmarks = landmarksFlat,
           u_orientation = ''front'',
           u_blendshapes = blendshapesObj,
           u_rotation = XYZ (- vx rotation_v) (vy rotation_v) (vz rotation_v),
           u_translation =
             XYZ (vx translation_v / 100) (vy translation_v / 100) (vz translation_v / 100)\<rparr>,
          decompositions (first_matrix results)))"

definition faceLandmarker_chunk :: "impl \<Rightarrow> three \<Rightarrow> world \<Rightarrow> FaceLandmarkerResult
    \<Rightarrow> chunk \<times> matrix list" where
  "faceLandmarker_chunk i th w results =
     (case i of
        PkgIndex \<Rightarrow> (Tracking (fst (pkg_result th w results)), snd (pkg_result th w results))
      | SrcIndex \<Rightarrow> (Unity (fst (src_result th results)), snd (src_result th results)))"

definition onFaceLandmarkerResult :: "impl \<Rightarrow> (listener \<Rightarrow> chunk \<Rightarrow> bool) \<Rightarrow> three
    \<Rightarrow> FaceLandmarkerResult \<Rightarrow> world \<Rightarrow> world \<times> error option" where
  "onFaceLandmarkerResult i T th results w =
     (let (result, ds) = faceLandmarker_chunk i th w results
      in record_and_deliver T result (w\<lparr>decomposed := decomposed w @ ds\<rparr>))"

text \<open>
  \<^verbatim>\<open>processFrame\<close>, up to its \<^verbatim>\<open>await\<close> with the old API and to its end with the new one;
  \<open>detected\<close> is what \<^verbatim>\<open>faceLandmarker.detectForVideo\<close> returns for this frame. An exception
  of a listener leaves the function before the next frame is requested.
\<close>

definition processFrame :: "impl \<Rightarrow> (listener \<Rightarrow> chunk \<Rightarrow> bool) \<Rightarrow> three
    \<Rightarrow> FaceLandmarkerResult \<Rightarrow> world \<Rightarrow> world \<times> error option" where
  "processFrame i T th detected w =
     (if \<not> canvasElement w then (w, Some TypeError)
      else if usingNewAPI w then
        (if \<not> faceLandmarker w then (w, Some TypeError)
         else (case onFaceLandmarkerResult i T th detected w of
                 (w1, Some e) \<Rightarrow> (w1, Some e)
               | (w1, None) \<Rightarrow>
                   (let (h, w2) = requestAnimationFrame w1
                    in (w2\<lparr>animationFrameId := Some h\<rparr>, None))))
      else if \<not> faceMesh w then (w, Some TypeError)
      else (w\<lparr>suspended := Suc (suspended w)\<rparr>, None))"

text \<open>The rest of \<^verbatim>\<open>processFrame\<close> with the old API, once \<^verbatim>\<open>send\<close> has resolved.\<close>

definition processFrame_resume :: "world \<Rightarrow> world" where
  "processFrame_resume w =
     (let (h, w1) = requestAnimationFrame (w\<lparr>suspended := suspended w - 1\<rparr>)
      in w1\<lparr>animationFrameId := Some h\<rparr>)"

subsection \<open>Sessions\<close>

text \<open>
  What can happen to an instance: the host runner calls a hook or changes the listeners, or
  the browser runs something the instance has asked for. The browser runs a frame only for
  a pending request, fires the metadata handler only when one is set, lets FaceMesh call
  the result handler only when it is bound, and resumes \<^verbatim>\<open>processFrame\<close> only when a call
  is waiting; an event that cannot happen leaves the state as it is. An exception ends the
  method that was running and nothing else: the state keeps what was done before it.
\<close>

datatype event =
    Initialize "init_params option" bool
  | OnStart "stream option"
  | OnLoad "load_params option"
  | OnFinish
  | AddCallback listener
  | RemoveCallback listener
  | LoadedMetadata
  | RunFrame nat FaceLandmarkerResult
  | LegacyResults Results
  | SendResolved

fun step :: "impl \<Rightarrow> (listener \<Rightarrow> chunk \<Rightarrow> bool) \<Rightarrow> three \<Rightarrow> event \<Rightarrow> world \<Rightarrow> world" where
  "step i T th (Initialize params loads) w = fst (initialize i params loads w)"
| "step i T th (OnStart camera) w = fst (on_start camera w)"
| "step i T th (OnLoad params) w = on_load i params w"
| "step i T th OnFinish w = fst (on_finish w)"
| "step i T th (AddCallback l) w = addTrackingResultCallback l w"
| "step i T th (RemoveCallback l) w = removeTrackingResultCallback l w"
| "step i T th LoadedMetadata w = (if metadataHandler w then onloadedmetadata w else w)"
| "step i T th (RunFrame h detected) w =
     (if h \<in> set (pending w)
      then fst (processFrame i T th detected (w\<lparr>pending := removeAll h (pending w)\<rparr>))
      else w)"
| "step i T th (LegacyResults results) w =
     (if resultsBound w then fst (onMediaPipeResult T th results w) else w)"
| "step i T th SendResolved w = (if 0 < suspended w then processFrame_resume w else w)"

definition run :: "impl \<Rightarrow> (listener \<Rightarrow> chunk \<Rightarrow> bool) \<Rightarrow> three \<Rightarrow> event list \<Rightarrow> world \<Rightarrow> world" where
  "run i T th evs w = fold (step i T th) evs w"

text \<open>Kinds of events that the statements below single out.\<close>

fun selects_new_api :: "event \<Rightarrow> bool" where
  "selects_new_api (Initialize (Some p) loads) = (useFaceLandmarker p = Some True)"
| "selects_new_api _ = False"

fun reinitializes :: "event \<Rightarrow> bool" where
  "reinitializes (Initialize params loads) = True"
| "reinitializes _ = False"

fun starts_camera :: "event \<Rightarrow> bool" where
  "starts_camera (OnStart (Some s)) = True"
| "starts_camera _ = False"

fun enables_recording :: "event \<Rightarrow> bool" where
  "enables_recording (OnLoad (Some p)) = (record_p p = Some True)"
| "enables_recording _ = False"

text \<open>
  The scheduler is idle: no frame request is pending, and nothing is set up that could
  make one (no metadata handler, no result handler, no \<^verbatim>\<open>processFrame\<close> waiting).
\<close>

definition idle :: "world \<Rightarrow> bool" where
  "idle w \<longleftrightarrow> pending w = [] \<and> \<not> metadataHandler w \<and> \<not> resultsBound w \<and> suspended w = 0"

text \<open>Every object emitted so far: given to a listener, or pushed on the log.\<close>

definition emitted :: "world \<Rightarrow> chunk list" where
  "emitted w = map snd (calls w) @ recordedChunks w"

text \<open>
  The object has a \<^verbatim>\<open>blendshapes\<close> value. The Unity object always has one, built from the
  categories of the first face (empty when there is none).
\<close>

fun has_blendshapes :: "chunk \<Rightarrow> bool" where
  "has_blendshapes (Tracking r) = (blendshapes r \<noteq> None)"
| "has_blendshapes (Unity u) = True"

text \<open>
  The objects emitted between a state \<open>w\<close> and a later state \<open>w'\<close>: the arguments of the
  listener calls made since, and the entries pushed on the log since.
\<close>

definition emitted_by :: "world \<Rightarrow> world \<Rightarrow> chunk list" where
  "emitted_by w w' =
     map snd (drop (length (calls w)) (calls w')) @
     drop (length (recordedChunks w)) (recordedChunks w')"

text \<open>
  The listeners that a delivery reaches when \<^verbatim>\<open>forEach\<close> runs over \<open>cbs\<close>: those before the
  first one that throws, and that one; and the exception the delivery ends with.
\<close>

definition reached :: "(listener \<Rightarrow> chunk \<Rightarrow> bool) \<Rightarrow> listener list \<Rightarrow> chunk \<Rightarrow> listener list" where
  "reached T cbs r =
     takeWhile (\<lambda>l. \<not> T l r) cbs @ take 1 (dropWhile (\<lambda>l. \<not> T l r) cbs)"

definition thrown :: "(listener \<Rightarrow> chunk \<Rightarrow> bool) \<Rightarrow> listener list \<Rightarrow> chunk \<Rightarrow> error option" where
  "thrown T cbs r =
     (case dropWhile (\<lambda>l. \<not> T l r) cbs of [] \<Rightarrow> None | l # _ \<Rightarrow> Some (ListenerError l))"

text \<open>
  An \<^verbatim>\<open>IFaceTrackingResult\<close> without transformation, rotation and translation; a Unity
  object whose rotation and translation are zero.
\<close>

fun no_transform :: "chunk \<Rightarrow> bool" where
  "no_transform (Tracking r) =
     (transformation r = None \<and> rotation r = None \<and> translation r = None)"
| "no_transform (Unity u) = False"

fun zero_transform :: "chunk \<Rightarrow> bool" where
  "zero_transform (Unity u) = (u_rotation u = XYZ 0 0 0 \<and> u_translation u = XYZ 0 0 0)"
| "zero_transform (Tracking r) = False"

subsection \<open>Concrete inputs\<close>

text \<open>
  Listeners for the concrete runs: none throws, or listener \<open>1\<close> throws on every result.
\<close>

definition no_throw :: "listener \<Rightarrow> chunk \<Rightarrow> bool" where
  "no_throw l r = False"

definition first_throws :: "listener \<Rightarrow> chunk \<Rightarrow> bool" where
  "first_throws l r = (l = 1)"

text \<open>
  A decomposition for the concrete runs. The position is the last column of the
  column-major matrix, as in three.js; the angles are read off the rotation part to first
  order, which is exact for the pose used below, whose rotation part is the identity.
  Every general statement holds for any decomposition.
\<close>

definition small_angles :: "matrix \<Rightarrow> Euler" where
  "small_angles te = XYZ (- (te ! 9)) (te ! 8) (- (te ! 4))"

definition matrix_position :: "matrix \<Rightarrow> Vector3" where
  "matrix_position te = XYZ (te ! 12) (te ! 13) (te ! 14)"

definition decomposer :: three where
  "decomposer = \<lparr>setFromRotationMatrix = small_angles, setFromMatrixPosition = matrix_position\<rparr>"

definition pose :: matrix where
  "pose = [1, 0, 0, 0,  0, 1, 0, 0,  0, 0, 1, 0,  10, 20, 30, 1]"

definition no_face :: FaceLandmarkerResult where
  "no_face = \<lparr>faceBlendshapes = None, facialTransformationMatrixes = None, landmarks = None\<rparr>"

definition jaw_face :: FaceLandmarkerResult where
  "jaw_face =
     \<lparr>faceBlendshapes = Some [[\<lparr>categoryName = ''jawOpen'', score = 0.8\<rparr>]],
      facialTransformationMatrixes = Some [pose],
      landmarks = Some [[\<lparr>lx = 0.5, ly = 0.25, lz = 0\<rparr>]]\<rparr>"

definition legacy_face :: Results where
  "legacy_face = \<lparr>multiFaceGeometry = [pose]\<rparr>"

definition modern_params :: init_params where
  "modern_params = \<lparr>useFaceLandmarker = Some True, useFullTracking = None\<rparr>"

definition full_params :: init_params where
  "full_params = \<lparr>useFaceLandmarker = Some True, useFullTracking = Some True\<rparr>"

definition legacy_params :: init_params where
  "legacy_params = \<lparr>useFaceLandmarker = None, useFullTracking = None\<rparr>"

definition recording :: load_params where
  "recording = \<lparr>record_p = Some True\<rparr>"

definition not_recording :: load_params where
  "not_recording = \<lparr>record_p = Some False\<rparr>"

text \<open>
  A session up to its first frame: the backend is initialised, listeners are registered,
  the camera starts, the trial loads, the video is ready (the first frame request has
  handle \<open>1\<close>).
\<close>

definition session :: "init_params \<Rightarrow> listener list \<Rightarrow> load_params \<Rightarrow> event list" where
  "session p ls lp =
     Initialize (Some p) True # map AddCallback ls @
     [OnStart (Some 7), OnLoad (Some lp), LoadedMetadata]"

section \<open>Properties\<close>

subsection \<open>Delivery to the listeners\<close>

lemma forEach_calls:
  "fst (forEach T cbs r) =
     map (\<lambda>l. (l, r)) (takeWhile (\<lambda>l. \<not> T l r) cbs @ take 1 (dropWhile (\<lambda>l. \<not> T l r) cbs))"
  by (induction cbs) (auto split: prod.splits)

lemma forEach_error:
  "snd (forEach T cbs r) =
     (case dropWhile (\<lambda>l. \<not> T l r) cbs of [] \<Rightarrow> None | l # _ \<Rightarrow> Some (ListenerError l))"
  by (induction cbs) (auto split: prod.splits)

lemma forEach_all:
  "\<forall>l\<in>set cbs. \<not> T l r \<Longrightarrow> forEach T cbs r = (map (\<lambda>l. (l, r)) cbs, None)"
  by (induction cbs) auto

lemma record_and_deliver_world:
  "fst (record_and_deliver T r w) =
     w\<lparr>recordedChunks := (if recordTracks w then recordedChunks w @ [r] else recordedChunks w),
       calls := calls w @ fst (forEach T (onResultCallbacks w) r)\<rparr>"
  by (simp add: record_and_deliver_def split: prod.splits)

lemma record_and_deliver_error:
  "snd (record_and_deliver T r w) = snd (forEach T (onResultCallbacks w) r)"
  by (simp add: record_and_deliver_def split: prod.splits)

lemma onMediaPipeResult_world:
  "fst (onMediaPipeResult T th results w) =
     (case multiFaceGeometry results of
        [] \<Rightarrow> w
      | g # _ \<Rightarrow>
          w\<lparr>recordedChunks :=
              (if recordTracks w then recordedChunks w @ [Tracking (legacy_result th w g)]
               else recordedChunks w),
            calls := calls w @ fst (forEach T (onResultCallbacks w) (Tracking (legacy_result th w g))),
            decomposed := decomposed w @ [g, g]\<rparr>)"
  by (simp add: onMediaPipeResult_def record_and_deliver_world legacy_result_def split: list.splits)

lemma onFaceLandmarkerResult_world:
  "fst (onFaceLandmarkerResult i T th results w) =
     w\<lparr>recordedChunks :=
         (if recordTracks w then recordedChunks w @ [fst (faceLandmarker_chunk i th w results)]
          else recordedChunks w),
       calls := calls w @ fst (forEach T (onResultCallbacks w) (fst (faceLandmarker_chunk i th w results))),
       decomposed := decomposed w @ snd (faceLandmarker_chunk i th w results)\<rparr>"
  by (simp add: onFaceLandmarkerResult_def record_and_deliver_world split: prod.splits)

lemma onFaceLandmarkerResult_error:
  "snd (onFaceLandmarkerResult i T th results w) =
     snd (forEach T (onResultCallbacks w) (fst (faceLandmarker_chunk i th w results)))"
  by (simp add: onFaceLandmarkerResult_def record_and_deliver_error split: prod.splits)

lemma forEach_reached: "fst (forEach T cbs r) = map (\<lambda>l. (l, r)) (reached T cbs r)"
  by (simp add: forEach_calls reached_def)

lemma reached_all: "\<forall>l\<in>set cbs. \<not> T l r \<Longrightarrow> reached T cbs r = cbs"
  by (induction cbs) (auto simp: reached_def)

lemma removeAll_twice: "removeAll h (removeAll h xs) = removeAll h xs"
  by (induction xs) auto

lemma forEach_thrown: "snd (forEach T cbs r) = thrown T cbs r"
  by (simp add: forEach_error thrown_def)

lemma onMediaPipeResult_error:
  "snd (onMediaPipeResult T th results w) =
     (case multiFaceGeometry results of
        [] \<Rightarrow> None
      | g # _ \<Rightarrow> snd (forEach T (onResultCallbacks w) (Tracking (legacy_result th w g))))"
  by (simp add: onMediaPipeResult_def record_and_deliver_error legacy_result_def split: list.splits)

lemma emitted_by_onFaceLandmarkerResult:
  "set (emitted_by w (fst (onFaceLandmarkerResult i T th detected w)))
     \<subseteq> {fst (faceLandmarker_chunk i th w detected)}"
  by (auto simp: emitted_by_def onFaceLandmarkerResult_world forEach_calls)

subsection \<open>Runs\<close>

lemma run_Nil: "run i T th [] w = w"
  by (simp add: run_def)

lemma run_Cons: "run i T th (e # evs) w = run i T th evs (step i T th e w)"
  by (simp add: run_def)

lemma run_invariant:
  assumes "P w" and "\<And>e v. e \<in> set evs \<Longrightarrow> P v \<Longrightarrow> P (step i T th e v)"
  shows "P (run i T th evs w)"
  using assms
proof (induction evs arbitrary: w)
  case Nil
  then show ?case by (simp add: run_Nil)
next
  case (Cons e evs)
  have "P (step i T th e w)" using Cons.prems by simp
  moreover have "\<And>e' v. e' \<in> set evs \<Longrightarrow> P v \<Longrightarrow> P (step i T th e' v)"
    using Cons.prems by simp
  ultimately show ?case using Cons.IH by (simp add: run_Cons)
qed

lemma processFrame_world:
  "fst (processFrame i T th d w) =
     (if \<not> canvasElement w then w
      else if usingNewAPI w then
        (if \<not> faceLandmarker w then w
         else if snd (onFaceLandmarkerResult i T th d w) = None
         then (fst (onFaceLandmarkerResult i T th d w))
                \<lparr>animationFrameId := Some (nextHandle w),
                 pending := pending w @ [nextHandle w],
                 nextHandle := Suc (nextHandle w)\<rparr>
         else fst (onFaceLandmarkerResult i T th d w))
      else if \<not> faceMesh w then w
      else w\<lparr>suspended := Suc (suspended w)\<rparr>)"
proof -
  obtain a e where ae: "onFaceLandmarkerResult i T th d w = (a, e)"
    by fastforce
  then have a: "a = fst (onFaceLandmarkerResult i T th d w)"
    by simp
  have "pending a = pending w" and "nextHandle a = nextHandle w"
    unfolding a by (simp_all add: onFaceLandmarkerResult_world)
  then show ?thesis
    using ae by (auto simp: processFrame_def requestAnimationFrame_def split: option.splits)
qed

text \<open>The definitions unfolded when a concrete run is evaluated.\<close>

lemmas sample_defs = no_throw_def first_throws_def small_angles_def matrix_position_def decomposer_def
  pose_def no_face_def jaw_face_def legacy_face_def modern_params_def full_params_def legacy_params_def
  recording_def not_recording_def session_def new_extension_def

lemmas method_defs = run_def initialize_def on_start_def onloadedmetadata_def on_load_def on_finish_def
  addTrackingResultCallback_def removeTrackingResultCallback_def record_and_deliver_def
  legacy_result_def onMediaPipeResult_def pkg_result_def src_result_def faceLandmarker_chunk_def
  onFaceLandmarkerResult_def processFrame_def processFrame_resume_def requestAnimationFrame_def
  stopAnimationFrame_def splice_def new_Euler_def new_Vector3_def first_matrix_def
  decompositions_def set_property_def array_index_def is_digit_def Let_def

subsection \<open>The order of the properties of an object\<close>

text \<open>
  Array indices come first, in ascending order; \<^verbatim>\<open>__proto__\<close> creates no property; a
  key assigned twice keeps its first place and its last value.
\<close>

lemma array_index_examples:
  "array_index ''10'' = Some 10 \<and> array_index ''0'' = Some 0 \<and> array_index ''01'' = None
   \<and> array_index ''jawOpen'' = None \<and> array_index ''4294967295'' = None
   \<and> array_index ''4294967294'' = Some 4294967294 \<and> array_index '''' = None"
  by (simp add: array_index_def is_digit_def decimal_def digit_value_def)

lemma blendshapes_object_order:
  "u_blendshapes (fst (src_result th
     \<lparr>faceBlendshapes = Some [[\<lparr>categoryName = ''jawOpen'', score = 1\<rparr>,
                               \<lparr>categoryName = ''10'', score = 2\<rparr>,
                               \<lparr>categoryName = ''__proto__'', score = 3\<rparr>,
                               \<lparr>categoryName = ''2'', score = 4\<rparr>,
                               \<lparr>categoryName = ''browDown'', score = 5\<rparr>,
                               \<lparr>categoryName = ''jawOpen'', score = 6\<rparr>]],
      facialTransformationMatrixes = None, landmarks = None\<rparr>)) =
   [(''2'', 4), (''10'', 2), (''jawOpen'', 6), (''browDown'', 5)]"
  by (simp add: src_result_def set_property_def array_index_def is_digit_def decimal_def
      digit_value_def Let_def)

subsection \<open>Removing a listener\<close>

lemma indexOf_absent: "a \<notin> set xs \<Longrightarrow> indexOf xs a = - 1"
  by (induction xs) auto

lemma splice_last: "splice xs (- 1) 1 = butlast xs"
  by (cases xs rule: rev_cases) (auto simp: splice_def Let_def)

lemma removeTrackingResultCallback_absent:
  "callback \<notin> set (onResultCallbacks w) \<Longrightarrow>
   removeTrackingResultCallback callback w = w\<lparr>onResultCallbacks := butlast (onResultCallbacks w)\<rparr>"
  by (simp add: removeTrackingResultCallback_def indexOf_absent splice_last)

text \<open>
  Claim C1 says that removing a listener that is not registered leaves the registry as it
  is. \<^verbatim>\<open>indexOf\<close> returns \<open>-1\<close> for such a listener, and \<^verbatim>\<open>splice(-1, 1)\<close> removes the
  last element: with listeners \<open>1\<close> and \<open>2\<close> registered, removing listener \<open>3\<close> unregisters
  listener \<open>2\<close>. No exception is thrown.
\<close>

theorem remove_unregistered_listener_drops_last:
  "onResultCallbacks
     (removeTrackingResultCallback 3
        (addTrackingResultCallback 2 (addTrackingResultCallback 1 new_extension))) = [1]"
  by (simp add: removeTrackingResultCallback_def addTrackingResultCallback_def new_extension_def
      splice_def)

subsection \<open>A listener that throws\<close>

text \<open>
  Claim C4 says that when one listener throws, the listeners registered after it still get
  the result, and the exception does not reach the scheduler. Neither file catches
  anything. With listeners \<open>1\<close> and \<open>2\<close> registered and listener \<open>1\<close> throwing, a frame of
  the new API calls listener \<open>1\<close> only and leaves no frame request pending; a result of the
  old API calls listener \<open>1\<close> only as well.
\<close>

theorem throwing_listener_stops_delivery:
  "map fst (calls (run PkgIndex first_throws decomposer
       (session modern_params [1, 2] recording @ [RunFrame 1 jaw_face]) new_extension)) = [1]
   \<and> onResultCallbacks (run PkgIndex first_throws decomposer
       (session modern_params [1, 2] recording @ [RunFrame 1 jaw_face]) new_extension) = [1, 2]
   \<and> pending (run PkgIndex first_throws decomposer
       (session modern_params [1, 2] recording @ [RunFrame 1 jaw_face]) new_extension) = []
   \<and> map fst (calls (run SrcIndex first_throws decomposer
       (session legacy_params [1, 2] recording @ [RunFrame 1 no_face, LegacyResults legacy_face])
       new_extension)) = [1]"
  by (simp add: sample_defs method_defs)

text \<open>
  Claim C4 as amended: a result is given to the listeners in registration order up to and
  including the first one that throws; the listeners after that one are not called, and the
  handler ends with the exception of that listener. With the new API the exception leaves
  \<^verbatim>\<open>processFrame\<close> too, before the next frame is requested. When no listener throws,
  every listener is reached.
\<close>

theorem delivery_up_to_first_throwing_listener:
  assumes "multiFaceGeometry results = g # gs"
  shows "calls (fst (onMediaPipeResult T th results w)) =
           calls w @ map (\<lambda>l. (l, Tracking (legacy_result th w g)))
             (reached T (onResultCallbacks w) (Tracking (legacy_result th w g)))
         \<and> snd (onMediaPipeResult T th results w) =
           thrown T (onResultCallbacks w) (Tracking (legacy_result th w g))
         \<and> calls (fst (onFaceLandmarkerResult i T th detected w)) =
           calls w @ map (\<lambda>l. (l, fst (faceLandmarker_chunk i th w detected)))
             (reached T (onResultCallbacks w) (fst (faceLandmarker_chunk i th w detected)))
         \<and> snd (onFaceLandmarkerResult i T th detected w) =
           thrown T (onResultCallbacks w) (fst (faceLandmarker_chunk i th w detected))
         \<and> (canvasElement w \<and> usingNewAPI w \<and> faceLandmarker w \<and>
            thrown T (onResultCallbacks w) (fst (faceLandmarker_chunk i th w detected)) \<noteq> None
            \<longrightarrow> processFrame i T th detected w = onFaceLandmarkerResult i T th detected w)
         \<and> ((\<forall>l\<in>set (onResultCallbacks w). \<not> T l (fst (faceLandmarker_chunk i th w detected)))
            \<longrightarrow> reached T (onResultCallbacks w) (fst (faceLandmarker_chunk i th w detected))
                = onResultCallbacks w)"
proof -
  have legacy: "calls (fst (onMediaPipeResult T th results w)) =
           calls w @ map (\<lambda>l. (l, Tracking (legacy_result th w g)))
             (reached T (onResultCallbacks w) (Tracking (legacy_result th w g)))"
    using assms by (simp add: onMediaPipeResult_world forEach_reached)
  have legacy_err: "snd (onMediaPipeResult T th results w) =
           thrown T (onResultCallbacks w) (Tracking (legacy_result th w g))"
    using assms by (simp add: onMediaPipeResult_error forEach_thrown)
  have modern: "calls (fst (onFaceLandmarkerResult i T th detected w)) =
           calls w @ map (\<lambda>l. (l, fst (faceLandmarker_chunk i th w detected)))
             (reached T (onResultCallbacks w) (fst (faceLandmarker_chunk i th w detected)))"
    by (simp add: onFaceLandmarkerResult_world forEach_reached)
  have modern_err: "snd (onFaceLandmarkerResult i T th detected w) =
           thrown T (onResultCallbacks w) (fst (faceLandmarker_chunk i th w detected))"
    by (simp add: onFaceLandmarkerResult_error forEach_thrown)
  have frame: "canvasElement w \<and> usingNewAPI w \<and> faceLandmarker w \<and>
            thrown T (onResultCallbacks w) (fst (faceLandmarker_chunk i th w detected)) \<noteq> None
            \<longrightarrow> processFrame i T th detected w = onFaceLandmarkerResult i T th detected w"
    using modern_err by (cases "onFaceLandmarkerResult i T th detected w") (auto simp: processFrame_def)
  have all: "(\<forall>l\<in>set (onResultCallbacks w). \<not> T l (fst (faceLandmarker_chunk i th w detected)))
            \<longrightarrow> reached T (onResultCallbacks w) (fst (faceLandmarker_chunk i th w detected))
                = onResultCallbacks w"
    by (simp add: reached_all)
  from legacy legacy_err modern modern_err frame all show ?thesis by blast
qed

theorem delivery_up_to_first_throwing_listener_witness:
  "map fst (calls (fst (onMediaPipeResult first_throws decomposer legacy_face
      (run PkgIndex no_throw decomposer (session legacy_params [2, 1, 3] recording) new_extension))))
     = [2, 1]
   \<and> snd (onMediaPipeResult first_throws decomposer legacy_face
      (run PkgIndex no_throw decomposer (session legacy_params [2, 1, 3] recording) new_extension))
     = Some (ListenerError 1)"
  using delivery_up_to_first_throwing_listener [of legacy_face pose "[]" first_throws decomposer
      "run PkgIndex no_throw decomposer (session legacy_params [2, 1, 3] recording) new_extension"
      PkgIndex no_face]
  by (simp add: sample_defs method_defs reached_def thrown_def)

subsection \<open>A listener registered twice\<close>

text \<open>
  Claim C7 says that the registry is a set, so that a function registered twice gets each
  result once. The registry is an array and \<^verbatim>\<open>addTrackingResultCallback\<close> pushes without
  looking: listener \<open>1\<close>, registered twice, is called twice for one frame.
\<close>

theorem listener_registered_twice_called_twice:
  "calls (run PkgIndex no_throw decomposer
       (session modern_params [1, 1] recording @ [RunFrame 1 no_face]) new_extension) =
     [(1, Tracking \<lparr>frame_id = Some 1, transformation = None, rotation = None,
                    translation = None, blendshapes = None\<rparr>),
      (1, Tracking \<lparr>frame_id = Some 1, transformation = None, rotation = None,
                    translation = None, blendshapes = None\<rparr>)]"
  by (simp add: sample_defs method_defs)

text \<open>
  Claim C7 as amended: the registry is a list in registration order, duplicates included.
  When no listener throws, a result is given to every entry of the list once, in that order,
  within the handler; registering a function appends one entry, and a function gets each
  result as many times as it is registered.
\<close>

theorem listeners_called_once_per_registration:
  assumes "multiFaceGeometry results = g # gs"
    and "\<forall>l\<in>set (onResultCallbacks w). \<not> T l (Tracking (legacy_result th w g))"
    and "\<forall>l\<in>set (onResultCallbacks w). \<not> T l (fst (faceLandmarker_chunk i th w detected))"
  shows "calls (fst (onMediaPipeResult T th results w)) =
           calls w @ map (\<lambda>l. (l, Tracking (legacy_result th w g))) (onResultCallbacks w)
         \<and> calls (fst (onFaceLandmarkerResult i T th detected w)) =
           calls w @ map (\<lambda>l. (l, fst (faceLandmarker_chunk i th w detected))) (onResultCallbacks w)
         \<and> onResultCallbacks (addTrackingResultCallback k w) = onResultCallbacks w @ [k]
         \<and> count_list (onResultCallbacks (addTrackingResultCallback k w)) k =
           Suc (count_list (onResultCallbacks w) k)
         \<and> count_list (map fst (drop (length (calls w))
              (calls (fst (onFaceLandmarkerResult i T th detected w))))) k =
           count_list (onResultCallbacks w) k
         \<and> count_list (map fst (drop (length (calls w))
              (calls (fst (onMediaPipeResult T th results w))))) k =
           count_list (onResultCallbacks w) k"
  using assms
  by (simp add: onMediaPipeResult_world onFaceLandmarkerResult_world forEach_all
      addTrackingResultCallback_def comp_def)

theorem listeners_called_once_per_registration_witness:
  "calls (fst (onFaceLandmarkerResult PkgIndex no_throw decomposer no_face
       (addTrackingResultCallback 1 (addTrackingResultCallback 2
          (addTrackingResultCallback 1 new_extension))))) =
     [(1, Tracking \<lparr>frame_id = None, transformation = None, rotation = None,
                    translation = None, blendshapes = None\<rparr>),
      (2, Tracking \<lparr>frame_id = None, transformation = None, rotation = None,
                    translation = None, blendshapes = None\<rparr>),
      (1, Tracking \<lparr>frame_id = None, transformation = None, rotation = None,
                    translation = None, blendshapes = None\<rparr>)]
   \<and> count_list (map fst (calls (fst (onMediaPipeResult no_throw decomposer legacy_face
       (addTrackingResultCallback 1 (addTrackingResultCallback 2
          (addTrackingResultCallback 1 new_extension))))))) 1 = 2"
  using listeners_called_once_per_registration [of legacy_face pose "[]"
      "addTrackingResultCallback 1 (addTrackingResultCallback 2
          (addTrackingResultCallback 1 new_extension))" no_throw decomposer PkgIndex no_face 1]
  by (simp add: sample_defs method_defs)

subsection \<open>Finishing twice\<close>

text \<open>
  Claim C6 says that a second \<^verbatim>\<open>on_finish\<close> returns an empty log. \<^verbatim>\<open>on_finish\<close> does
  not empty the log (\<^verbatim>\<open>on_load\<close> does): after a session that recorded one frame, the call
  after the first \<^verbatim>\<open>on_finish\<close> returns that frame again.
\<close>

theorem second_on_finish_returns_log_again:
  "snd (on_finish (run PkgIndex no_throw decomposer
       (session modern_params [1] recording @ [RunFrame 1 no_face, OnFinish]) new_extension)) =
     [Tracking \<lparr>frame_id = Some 1, transformation = None, rotation = None,
                translation = None, blendshapes = None\<rparr>]"
  by (simp add: sample_defs method_defs)

text \<open>
  Claim C6 as amended: no statement of \<^verbatim>\<open>on_finish\<close> can throw (the model has no error
  branch for it), and a second call in a row returns the same log as the first, the log
  recorded since the last \<^verbatim>\<open>on_load\<close>; it adds a line to the console and changes nothing
  else. The second log is empty exactly when nothing had been recorded.
\<close>

theorem on_finish_twice_same_log:
  "snd (on_finish (fst (on_finish w))) = snd (on_finish w)
   \<and> snd (on_finish w) = recordedChunks w
   \<and> fst (on_finish (fst (on_finish w))) =
       (fst (on_finish w))\<lparr>console := console (fst (on_finish w)) @
          [LogTrackedChunks (length (recordedChunks w))]\<rparr>
   \<and> (snd (on_finish (fst (on_finish w))) = []) = (recordedChunks w = [])"
  by (simp add: on_finish_def stopAnimationFrame_def Let_def removeAll_twice split: option.splits)

subsection \<open>A frame without a transformation matrix\<close>

text \<open>
  Claim C3 says that a frame of the new API without a facial transformation matrix yields
  a record without transformation, rotation and translation, never zeros. The version in
  \<^verbatim>\<open>src/src/index.ts\<close> starts from \<^verbatim>\<open>new Euler()\<close> and \<^verbatim>\<open>new Vector3()\<close> and always
  writes a rotation and a translation into its Unity object: zeros for such a frame.
\<close>

theorem unity_result_defaults_to_zero:
  "calls (run SrcIndex no_throw decomposer
       (session modern_params [1] recording @ [RunFrame 1 no_face]) new_extension) =
     [(1, Unity \<lparr>u_landmarks = [], u_orientation = ''front'', u_blendshapes = [],
                 u_rotation = XYZ 0 0 0, u_translation = XYZ 0 0 0\<rparr>)]"
  by (simp add: sample_defs method_defs)

text \<open>
  Claim C3 as amended: for a frame of the new API without a facial transformation matrix
  no matrix is decomposed in either file; the package version emits a record whose
  transformation, rotation and translation are all absent, and the version in
  \<^verbatim>\<open>src/src/index.ts\<close> emits a Unity object with the rotation and the translation of a
  fresh \<^verbatim>\<open>Euler\<close> and \<^verbatim>\<open>Vector3\<close>, which are zero.
\<close>

theorem no_transform_no_decomposition:
  assumes "facialTransformationMatrixes detected = None
           \<or> facialTransformationMatrixes detected = Some []"
  shows "decomposed (fst (onFaceLandmarkerResult i T th detected w)) = decomposed w
         \<and> list_all no_transform
             (emitted_by w (fst (onFaceLandmarkerResult PkgIndex T th detected w)))
         \<and> list_all zero_transform
             (emitted_by w (fst (onFaceLandmarkerResult SrcIndex T th detected w)))"
proof -
  have pkg: "no_transform (fst (faceLandmarker_chunk PkgIndex th w detected))"
    using assms
    by (auto simp: faceLandmarker_chunk_def pkg_result_def first_matrix_def Let_def)
  have src: "zero_transform (fst (faceLandmarker_chunk SrcIndex th w detected))"
    using assms
    by (auto simp: faceLandmarker_chunk_def src_result_def first_matrix_def new_Euler_def
        new_Vector3_def Let_def)
  have none: "snd (faceLandmarker_chunk i th w detected) = []"
    using assms
    by (cases i)
       (auto simp: faceLandmarker_chunk_def src_result_def pkg_result_def first_matrix_def
         decompositions_def Let_def)
  have d: "decomposed (fst (onFaceLandmarkerResult i T th detected w)) = decomposed w"
    by (simp add: onFaceLandmarkerResult_world none)
  from pkg emitted_by_onFaceLandmarkerResult [of w PkgIndex T th detected]
  have p: "list_all no_transform
             (emitted_by w (fst (onFaceLandmarkerResult PkgIndex T th detected w)))"
    by (auto simp: list_all_iff)
  from src emitted_by_onFaceLandmarkerResult [of w SrcIndex T th detected]
  have s: "list_all zero_transform
             (emitted_by w (fst (onFaceLandmarkerResult SrcIndex T th detected w)))"
    by (auto simp: list_all_iff)
  from d p s show ?thesis by blast
qed

theorem no_transform_no_decomposition_witness:
  "decomposed (fst (onFaceLandmarkerResult PkgIndex no_throw decomposer no_face
      (run PkgIndex no_throw decomposer (session modern_params [1] recording) new_extension))) = []
   \<and> emitted_by (run PkgIndex no_throw decomposer (session modern_params [1] recording) new_extension)
       (fst (onFaceLandmarkerResult PkgIndex no_throw decomposer no_face
         (run PkgIndex no_throw decomposer (session modern_params [1] recording) new_extension))) =
     [Tracking \<lparr>frame_id = Some 1, transformation = None, rotation = None,
                translation = None, blendshapes = None\<rparr>,
      Tracking \<lparr>frame_id = Some 1, transformation = None, rotation = None,
                translation = None, blendshapes = None\<rparr>]
   \<and> list_all no_transform
       (emitted_by (run PkgIndex no_throw decomposer (session modern_params [1] recording) new_extension)
         (fst (onFaceLandmarkerResult PkgIndex no_throw decomposer no_face
           (run PkgIndex no_throw decomposer (session modern_params [1] recording) new_extension))))"
  using no_transform_no_decomposition [of no_face PkgIndex no_throw decomposer
      "run PkgIndex no_throw decomposer (session modern_params [1] recording) new_extension"]
  by (simp add: sample_defs method_defs emitted_by_def)

subsection \<open>No camera\<close>

lemma step_stays_idle:
  assumes "\<not> starts_camera e" and "idle v \<and> calls v = [] \<and> recordedChunks v = []"
  shows "idle (step i T th e v) \<and> calls (step i T th e v) = [] \<and> recordedChunks (step i T th e v) = []"
proof (cases e)
  case (Initialize params loads)
  then show ?thesis using assms
    by (cases i) (auto simp: idle_def initialize_def Let_def split: option.splits)
next
  case (OnStart camera)
  then show ?thesis using assms
    by (cases camera) (auto simp: idle_def on_start_def Let_def)
next
  case (OnLoad params)
  then show ?thesis using assms
    by (cases i) (auto simp: idle_def on_load_def Let_def)
next
  case OnFinish
  then show ?thesis using assms
    by (auto simp: idle_def on_finish_def stopAnimationFrame_def Let_def split: option.splits)
next
  case (AddCallback l)
  then show ?thesis using assms by (auto simp: idle_def addTrackingResultCallback_def)
next
  case (RemoveCallback l)
  then show ?thesis using assms by (auto simp: idle_def removeTrackingResultCallback_def)
next
  case LoadedMetadata
  then show ?thesis using assms by (auto simp: idle_def)
next
  case (RunFrame h d)
  then show ?thesis using assms by (auto simp: idle_def)
next
  case (LegacyResults r)
  then show ?thesis using assms by (auto simp: idle_def)
next
  case SendResolved
  then show ?thesis using assms by (auto simp: idle_def)
qed

text \<open>
  Claim C8: when the camera stream is unavailable, \<^verbatim>\<open>on_start\<close> throws nothing, requests
  no frame and sets up no handler; it prints the warning. In a session of a new instance
  in which no \<^verbatim>\<open>on_start\<close> finds a camera, whatever else the host and the browser do, the
  scheduler stays idle, no listener is ever called, and \<^verbatim>\<open>on_finish\<close> returns an empty log.
\<close>

theorem camera_unavailable_session:
  assumes "\<forall>e\<in>set evs. \<not> starts_camera e"
  shows "snd (on_start None w) = None
         \<and> pending (fst (on_start None w)) = pending w
         \<and> metadataHandler (fst (on_start None w)) = metadataHandler w
         \<and> resultsBound (fst (on_start None w)) = resultsBound w
         \<and> console (fst (on_start None w)) = console w @ [Warn ''Camera not initialized.'']
         \<and> calls (fst (on_start None w)) = calls w
         \<and> idle (run i T th evs new_extension)
         \<and> calls (run i T th evs new_extension) = []
         \<and> snd (on_finish (run i T th evs new_extension)) = []"
proof -
  let ?P = "\<lambda>v. idle v \<and> calls v = [] \<and> recordedChunks v = []"
  have "?P new_extension" by (simp add: idle_def new_extension_def)
  moreover have "\<And>e v. e \<in> set evs \<Longrightarrow> ?P v \<Longrightarrow> ?P (step i T th e v)"
    using assms step_stays_idle by blast
  ultimately have "?P (run i T th evs new_extension)" by (rule run_invariant)
  then show ?thesis
    by (simp add: on_start_def on_finish_def stopAnimationFrame_def Let_def split: option.splits)
qed

theorem camera_unavailable_session_witness:
  "console (run PkgIndex no_throw decomposer
      [Initialize (Some legacy_params) True, AddCallback 1, OnStart None, OnLoad (Some recording),
       LoadedMetadata, RunFrame 1 jaw_face, LegacyResults legacy_face, SendResolved] new_extension)
     = [LogParams, Warn ''Camera not initialized.'', LogParams]
   \<and> calls (run PkgIndex no_throw decomposer
      [Initialize (Some legacy_params) True, AddCallback 1, OnStart None, OnLoad (Some recording),
       LoadedMetadata, RunFrame 1 jaw_face, LegacyResults legacy_face, SendResolved] new_extension)
     = []
   \<and> snd (on_finish (run PkgIndex no_throw decomposer
      [Initialize (Some legacy_params) True, AddCallback 1, OnStart None, OnLoad (Some recording),
       LoadedMetadata, RunFrame 1 jaw_face, LegacyResults legacy_face, SendResolved] new_extension))
     = []"
  using camera_unavailable_session [of
      "[Initialize (Some legacy_params) True, AddCallback 1, OnStart None, OnLoad (Some recording),
        LoadedMetadata, RunFrame 1 jaw_face, LegacyResults legacy_face, SendResolved]"
      new_extension PkgIndex no_throw decomposer]
  by (simp add: sample_defs method_defs)

subsection \<open>Recording disabled\<close>

lemma step_keeps_log_empty:
  assumes "\<not> enables_recording e" and "\<not> recordTracks v \<and> recordedChunks v = []"
  shows "\<not> recordTracks (step i T th e v) \<and> recordedChunks (step i T th e v) = []"
proof (cases e)
  case (Initialize params loads)
  then show ?thesis using assms
    by (cases i) (auto simp: initialize_def Let_def split: option.splits)
next
  case (OnStart camera)
  then show ?thesis using assms
    by (cases camera) (auto simp: on_start_def Let_def)
next
  case (OnLoad params)
  then show ?thesis using assms
    by (cases i; cases params) (auto simp: on_load_def Let_def split: option.splits)
next
  case OnFinish
  then show ?thesis using assms
    by (auto simp: on_finish_def stopAnimationFrame_def Let_def split: option.splits)
next
  case (AddCallback l)
  then show ?thesis using assms by (auto simp: addTrackingResultCallback_def)
next
  case (RemoveCallback l)
  then show ?thesis using assms by (auto simp: removeTrackingResultCallback_def)
next
  case LoadedMetadata
  then show ?thesis using assms
    by (auto simp: onloadedmetadata_def requestAnimationFrame_def stopAnimationFrame_def
        split: option.splits)
next
  case (RunFrame h d)
  then show ?thesis using assms
    by (auto simp: processFrame_world onFaceLandmarkerResult_world)
next
  case (LegacyResults r)
  then show ?thesis using assms
    by (auto simp: onMediaPipeResult_world split: list.splits)
next
  case SendResolved
  then show ?thesis using assms
    by (auto simp: processFrame_resume_def requestAnimationFrame_def)
qed

text \<open>
  Claim C9 says that with recording disabled every registered listener still receives
  every result. Recording has no part in that, but a listener that throws has: in a session
  that does not record, with listeners \<open>1\<close> and \<open>2\<close> registered and listener \<open>1\<close> throwing,
  listener \<open>2\<close> gets nothing. The log that \<^verbatim>\<open>on_finish\<close> returns is empty, as the claim
  says.
\<close>

theorem recording_off_throwing_listener_cuts_delivery:
  "map fst (calls (run PkgIndex first_throws decomposer
       (session modern_params [1, 2] not_recording @ [RunFrame 1 jaw_face]) new_extension)) = [1]
   \<and> onResultCallbacks (run PkgIndex first_throws decomposer
       (session modern_params [1, 2] not_recording @ [RunFrame 1 jaw_face]) new_extension) = [1, 2]
   \<and> snd (on_finish (run PkgIndex first_throws decomposer
       (session modern_params [1, 2] not_recording @ [RunFrame 1 jaw_face]) new_extension)) = []"
  by (simp add: sample_defs method_defs)

text \<open>
  Claim C9 as amended: after an \<^verbatim>\<open>on_load\<close> that does not ask for recording, and as long
  as no later \<^verbatim>\<open>on_load\<close> asks for it, \<^verbatim>\<open>on_finish\<close> returns an empty log. A result
  handled with the recording flag off leaves the log as it is and is given to the
  listeners exactly as it is with the flag on: in registration order up to and including
  the first listener that throws, hence to every registered listener when none throws.
  This holds for the results of the old API (those that carry a face geometry) and for the
  frames of the new one.
\<close>

theorem recording_disabled_log_stays_empty:
  assumes "\<not> enables_recording (OnLoad params)" and "\<forall>e\<in>set evs. \<not> enables_recording e"
    and "multiFaceGeometry results = g # gs"
  shows "snd (on_finish (run i T th evs (on_load i params w))) = []
         \<and> recordedChunks (fst (onMediaPipeResult T th results (v\<lparr>recordTracks := False\<rparr>)))
             = recordedChunks v
         \<and> recordedChunks (fst (onFaceLandmarkerResult i T th detected (v\<lparr>recordTracks := False\<rparr>)))
             = recordedChunks v
         \<and> calls (fst (onMediaPipeResult T th results (v\<lparr>recordTracks := False\<rparr>)))
             = calls v @ map (\<lambda>l. (l, Tracking (legacy_result th v g)))
                 (reached T (onResultCallbacks v) (Tracking (legacy_result th v g)))
         \<and> calls (fst (onFaceLandmarkerResult i T th detected (v\<lparr>recordTracks := False\<rparr>)))
             = calls v @ map (\<lambda>l. (l, fst (faceLandmarker_chunk i th v detected)))
                 (reached T (onResultCallbacks v) (fst (faceLandmarker_chunk i th v detected)))
         \<and> calls (fst (onMediaPipeResult T th results (v\<lparr>recordTracks := False\<rparr>)))
             = calls (fst (onMediaPipeResult T th results (v\<lparr>recordTracks := True\<rparr>)))
         \<and> calls (fst (onFaceLandmarkerResult i T th detected (v\<lparr>recordTracks := False\<rparr>)))
             = calls (fst (onFaceLandmarkerResult i T th detected (v\<lparr>recordTracks := True\<rparr>)))
         \<and> ((\<forall>l\<in>set (onResultCallbacks v). \<not> T l (Tracking (legacy_result th v g))) \<longrightarrow>
            calls (fst (onMediaPipeResult T th results (v\<lparr>recordTracks := False\<rparr>)))
             = calls v @ map (\<lambda>l. (l, Tracking (legacy_result th v g))) (onResultCallbacks v))
         \<and> ((\<forall>l\<in>set (onResultCallbacks v). \<not> T l (fst (faceLandmarker_chunk i th v detected))) \<longrightarrow>
            calls (fst (onFaceLandmarkerResult i T th detected (v\<lparr>recordTracks := False\<rparr>)))
             = calls v @ map (\<lambda>l. (l, fst (faceLandmarker_chunk i th v detected))) (onResultCallbacks v))"
proof -
  let ?P = "\<lambda>v. \<not> recordTracks v \<and> recordedChunks v = []"
  have "?P (on_load i params w)"
    using assms(1) by (cases i; cases params) (auto simp: on_load_def split: option.splits)
  moreover have "\<And>e v. e \<in> set evs \<Longrightarrow> ?P v \<Longrightarrow> ?P (step i T th e v)"
    using assms(2) step_keeps_log_empty by blast
  ultimately have "?P (run i T th evs (on_load i params w))" by (rule run_invariant)
  then have log: "snd (on_finish (run i T th evs (on_load i params w))) = []"
    by (simp add: on_finish_def stopAnimationFrame_def Let_def split: option.splits)
  have chunk: "faceLandmarker_chunk i th (v\<lparr>recordTracks := b\<rparr>) detected
      = faceLandmarker_chunk i th v detected" for b
    by (cases i) (simp_all add: faceLandmarker_chunk_def pkg_result_def Let_def)
  have leg: "legacy_result th (v\<lparr>recordTracks := b\<rparr>) g = legacy_result th v g" for b
    by (simp add: legacy_result_def)
  have l1: "recordedChunks (fst (onMediaPipeResult T th results (v\<lparr>recordTracks := False\<rparr>)))
             = recordedChunks v"
    using assms(3) by (simp add: onMediaPipeResult_world)
  have l2: "recordedChunks (fst (onFaceLandmarkerResult i T th detected (v\<lparr>recordTracks := False\<rparr>)))
             = recordedChunks v"
    by (simp add: onFaceLandmarkerResult_world)
  have d1: "calls (fst (onMediaPipeResult T th results (v\<lparr>recordTracks := b\<rparr>)))
             = calls v @ map (\<lambda>l. (l, Tracking (legacy_result th v g)))
                 (reached T (onResultCallbacks v) (Tracking (legacy_result th v g)))" for b
    using assms(3) by (simp add: onMediaPipeResult_world leg forEach_reached)
  have d2: "calls (fst (onFaceLandmarkerResult i T th detected (v\<lparr>recordTracks := b\<rparr>)))
             = calls v @ map (\<lambda>l. (l, fst (faceLandmarker_chunk i th v detected)))
                 (reached T (onResultCallbacks v) (fst (faceLandmarker_chunk i th v detected)))" for b
    by (simp add: onFaceLandmarkerResult_world chunk forEach_reached)
  have a1: "(\<forall>l\<in>set (onResultCallbacks v). \<not> T l (Tracking (legacy_result th v g))) \<longrightarrow>
            calls (fst (onMediaPipeResult T th results (v\<lparr>recordTracks := False\<rparr>)))
             = calls v @ map (\<lambda>l. (l, Tracking (legacy_result th v g))) (onResultCallbacks v)"
    by (simp add: d1 reached_all)
  have a2: "(\<forall>l\<in>set (onResultCallbacks v). \<not> T l (fst (faceLandmarker_chunk i th v detected))) \<longrightarrow>
            calls (fst (onFaceLandmarkerResult i T th detected (v\<lparr>recordTracks := False\<rparr>)))
             = calls v @ map (\<lambda>l. (l, fst (faceLandmarker_chunk i th v detected))) (onResultCallbacks v)"
    by (simp add: d2 reached_all)
  have e1: "calls (fst (onMediaPipeResult T th results (v\<lparr>recordTracks := False\<rparr>)))
             = calls (fst (onMediaPipeResult T th results (v\<lparr>recordTracks := True\<rparr>)))"
    by (simp only: d1)
  have e2: "calls (fst (onFaceLandmarkerResult i T th detected (v\<lparr>recordTracks := False\<rparr>)))
             = calls (fst (onFaceLandmarkerResult i T th detected (v\<lparr>recordTracks := True\<rparr>)))"
    by (simp only: d2)
  from log l1 l2 d1 [of False] d2 [of False] e1 e2 a1 a2 show ?thesis by blast
qed

theorem recording_disabled_log_stays_empty_witness:
  "snd (on_finish (run PkgIndex first_throws decomposer
      [LoadedMetadata, RunFrame 1 no_face, LegacyResults legacy_face, AddCallback 3,
       LegacyResults legacy_face]
      (on_load PkgIndex (Some not_recording)
        (run PkgIndex first_throws decomposer
          [Initialize (Some legacy_params) True, AddCallback 2, AddCallback 1, OnStart (Some 7)]
          new_extension)))) = []
   \<and> map fst (calls (run PkgIndex first_throws decomposer
      [LoadedMetadata, RunFrame 1 no_face, LegacyResults legacy_face, AddCallback 3,
       LegacyResults legacy_face]
      (on_load PkgIndex (Some not_recording)
        (run PkgIndex first_throws decomposer
          [Initialize (Some legacy_params) True, AddCallback 2, AddCallback 1, OnStart (Some 7)]
          new_extension)))) = [2, 1, 2, 1]
   \<and> map fst (calls (fst (onMediaPipeResult no_throw decomposer legacy_face
        ((run PkgIndex no_throw decomposer (session legacy_params [1, 2] recording) new_extension)
           \<lparr>recordTracks := False\<rparr>)))) = [1, 2]
   \<and> map fst (calls (fst (onFaceLandmarkerResult PkgIndex no_throw decomposer jaw_face
        ((run PkgIndex no_throw decomposer (session legacy_params [1, 2] recording) new_extension)
           \<lparr>recordTracks := False\<rparr>)))) = [1, 2]"
  using recording_disabled_log_stays_empty [where params = "Some not_recording"
      and evs = "[LoadedMetadata, RunFrame 1 no_face, LegacyResults legacy_face, AddCallback 3,
       LegacyResults legacy_face]"
      and i = PkgIndex and T = first_throws and th = decomposer
      and w = "run PkgIndex first_throws decomposer
          [Initialize (Some legacy_params) True, AddCallback 2, AddCallback 1, OnStart (Some 7)]
          new_extension"
      and results = legacy_face and g = pose and gs = "[]"
      and v = new_extension and detected = no_face]
  by (simp add: sample_defs method_defs)

subsection \<open>A result of the old API after the end of the trial\<close>




subsection \<open>Blendshapes\<close>

lemma emitted_onFaceLandmarkerResult:
  "set (emitted (fst (onFaceLandmarkerResult i T th d w)))
     \<subseteq> set (emitted w) \<union> {fst (faceLandmarker_chunk i th w d)}"
  by (auto simp: emitted_def onFaceLandmarkerResult_world forEach_calls)

lemma emitted_onMediaPipeResult:
  "set (emitted (fst (onMediaPipeResult T th r w)))
     \<subseteq> set (emitted w) \<union> (\<Union>g\<in>set (multiFaceGeometry r). {Tracking (legacy_result th w g)})"
  by (cases "multiFaceGeometry r") (auto simp: emitted_def onMediaPipeResult_world forEach_calls)

lemma legacy_result_no_blendshapes: "\<not> has_blendshapes (Tracking (legacy_result th w g))"
  by (simp add: legacy_result_def)

lemma pkg_blendshapes_full_tracking:
  "has_blendshapes (fst (faceLandmarker_chunk PkgIndex th w d)) \<Longrightarrow> fullTracking w"
  by (auto simp: faceLandmarker_chunk_def pkg_result_def Let_def split: if_splits)

lemma step_emitted:
  "set (emitted (step i T th e w))
     \<subseteq> set (emitted w)
       \<union> {c. \<not> has_blendshapes c}
       \<union> {c. usingNewAPI w \<and> (i = PkgIndex \<longrightarrow> fullTracking w)}"
proof (cases e)
  case (Initialize params loads)
  then show ?thesis
    by (cases i) (auto simp: emitted_def initialize_def Let_def split: option.splits)
next
  case (OnStart camera)
  then show ?thesis by (cases camera) (auto simp: emitted_def on_start_def Let_def)
next
  case (OnLoad params)
  then show ?thesis by (cases i) (auto simp: emitted_def on_load_def Let_def)
next
  case OnFinish
  then show ?thesis
    by (auto simp: emitted_def on_finish_def stopAnimationFrame_def Let_def split: option.splits)
next
  case (AddCallback l)
  then show ?thesis by (auto simp: emitted_def addTrackingResultCallback_def)
next
  case (RemoveCallback l)
  then show ?thesis by (auto simp: emitted_def removeTrackingResultCallback_def)
next
  case LoadedMetadata
  then show ?thesis
    by (auto simp: emitted_def onloadedmetadata_def requestAnimationFrame_def
        stopAnimationFrame_def split: option.splits)
next
  case (RunFrame h d)
  let ?w = "w\<lparr>pending := removeAll h (pending w)\<rparr>"
  have em: "emitted ?w = emitted w" by (simp add: emitted_def)
  have ch: "faceLandmarker_chunk i th ?w d = faceLandmarker_chunk i th w d"
    by (cases i) (simp_all add: faceLandmarker_chunk_def pkg_result_def Let_def)
  have sub: "set (emitted (fst (processFrame i T th d ?w)))
      \<subseteq> set (emitted w) \<union> {c. usingNewAPI w \<and> c = fst (faceLandmarker_chunk i th w d)}"
    using emitted_onFaceLandmarkerResult [of i T th d ?w]
    by (auto simp: processFrame_world em ch emitted_def)
  have "c = fst (faceLandmarker_chunk i th w d) \<Longrightarrow> has_blendshapes c \<Longrightarrow> i = PkgIndex
      \<Longrightarrow> fullTracking w" for c
    using pkg_blendshapes_full_tracking by blast
  with sub RunFrame show ?thesis by auto
next
  case (LegacyResults r)
  then show ?thesis
    using emitted_onMediaPipeResult [of T th r w] legacy_result_no_blendshapes
    by auto
next
  case SendResolved
  then show ?thesis
    by (auto simp: emitted_def processFrame_resume_def requestAnimationFrame_def)
qed

lemma step_flags:
  "\<not> reinitializes e \<Longrightarrow>
   usingNewAPI (step i T th e w) = usingNewAPI w \<and> fullTracking (step i T th e w) = fullTracking w"
proof (cases e)
  case (OnStart camera)
  then show ?thesis by (cases camera) (auto simp: on_start_def Let_def)
next
  case (OnLoad params)
  then show ?thesis by (cases i) (auto simp: on_load_def Let_def)
next
  case OnFinish
  then show ?thesis
    by (auto simp: on_finish_def stopAnimationFrame_def Let_def split: option.splits)
next
  case LoadedMetadata
  then show ?thesis
    by (auto simp: onloadedmetadata_def requestAnimationFrame_def
        stopAnimationFrame_def split: option.splits)
next
  case (RunFrame h d)
  then show ?thesis by (auto simp: processFrame_world onFaceLandmarkerResult_world)
next
  case (LegacyResults r)
  then show ?thesis by (cases "multiFaceGeometry r") (auto simp: onMediaPipeResult_world)
next
  case SendResolved
  then show ?thesis by (auto simp: processFrame_resume_def requestAnimationFrame_def)
qed (auto simp: addTrackingResultCallback_def removeTrackingResultCallback_def)

text \<open>
  Claim C5 says that no result carries blendshapes unless the new API is in use and full
  tracking was asked for at \<^verbatim>\<open>initialize\<close>. The version in \<^verbatim>\<open>src/src/index.ts\<close> has no
  such flag and puts the blendshapes of the first face into every Unity object: a session
  initialised without \<^verbatim>\<open>useFullTracking\<close> emits \<open>jawOpen\<close>.
\<close>

theorem unity_blendshapes_without_full_tracking:
  "emitted (run SrcIndex no_throw decomposer
       (session modern_params [1] not_recording @ [RunFrame 1 jaw_face]) new_extension) =
     [Unity \<lparr>u_landmarks = [1 / 2, 1 / 4, 0], u_orientation = ''front'',
             u_blendshapes = [(''jawOpen'', 4 / 5)], u_rotation = XYZ 0 0 0,
             u_translation = XYZ (1 / 10) (1 / 5) (3 / 10)\<rparr>]
   \<and> fullTracking (run SrcIndex no_throw decomposer
       (session modern_params [1] not_recording @ [RunFrame 1 jaw_face]) new_extension) = False"
  by (simp add: sample_defs method_defs emitted_def)

text \<open>
  Claim C5 as amended: in a session that starts with nothing emitted and is not
  initialised again, every object emitted by the package version that has blendshapes was
  emitted with the new API in use and the full-tracking flag set; the flags are those that
  \<^verbatim>\<open>initialize\<close> reads from its parameters. In the version of \<^verbatim>\<open>src/src/index.ts\<close>, which has
  no full-tracking flag, an object with blendshapes comes from the new API only: results of
  the old API never have them, and every Unity object of the new API does.
\<close>

theorem blendshapes_need_new_api_and_full_tracking:
  assumes "\<forall>e\<in>set evs. \<not> reinitializes e" and "emitted w = []"
  shows "list_all (\<lambda>c. has_blendshapes c \<longrightarrow> usingNewAPI w \<and> fullTracking w)
           (emitted (run PkgIndex T th evs w))
         \<and> list_all (\<lambda>c. has_blendshapes c \<longrightarrow> usingNewAPI w)
           (emitted (run SrcIndex T th evs w))
         \<and> usingNewAPI (fst (initialize i params loads u)) =
             (case params of None \<Rightarrow> False | Some p \<Rightarrow> useFaceLandmarker p = Some True)
         \<and> fullTracking (fst (initialize PkgIndex params loads u)) =
             (case params of None \<Rightarrow> False | Some p \<Rightarrow> useFullTracking p = Some True)"
proof -
  let ?P = "\<lambda>j v. usingNewAPI v = usingNewAPI w \<and> fullTracking v = fullTracking w
      \<and> (\<forall>c\<in>set (emitted v). has_blendshapes c \<longrightarrow>
            usingNewAPI w \<and> (j = PkgIndex \<longrightarrow> fullTracking w))"
  have init: "?P j w" for j using assms(2) by simp
  have stp: "\<And>e v. e \<in> set evs \<Longrightarrow> ?P j v \<Longrightarrow> ?P j (step j T th e v)" for j
  proof -
    fix e v assume e: "e \<in> set evs" and v: "?P j v"
    from e assms(1) have "\<not> reinitializes e" by blast
    from step_flags [OF this, of j T th v] v
    have flags: "usingNewAPI (step j T th e v) = usingNewAPI w
        \<and> fullTracking (step j T th e v) = fullTracking w" by simp
    from step_emitted [of j T th e v] v
    have "\<forall>c\<in>set (emitted (step j T th e v)). has_blendshapes c \<longrightarrow>
            usingNewAPI w \<and> (j = PkgIndex \<longrightarrow> fullTracking w)"
      by auto
    with flags show "?P j (step j T th e v)" by blast
  qed
  have "?P j (run j T th evs w)" for j
    using init stp by (rule run_invariant)
  from this [of PkgIndex] this [of SrcIndex]
  have runs: "list_all (\<lambda>c. has_blendshapes c \<longrightarrow> usingNewAPI w \<and> fullTracking w)
           (emitted (run PkgIndex T th evs w))
         \<and> list_all (\<lambda>c. has_blendshapes c \<longrightarrow> usingNewAPI w)
           (emitted (run SrcIndex T th evs w))"
    by (simp add: list_all_iff)
  have flags: "usingNewAPI (fst (initialize i params loads u)) =
             (case params of None \<Rightarrow> False | Some p \<Rightarrow> useFaceLandmarker p = Some True)
         \<and> fullTracking (fst (initialize PkgIndex params loads u)) =
             (case params of None \<Rightarrow> False | Some p \<Rightarrow> useFullTracking p = Some True)"
    by (cases i) (auto simp: initialize_def Let_def split: option.splits)
  from runs flags show ?thesis by blast
qed

theorem blendshapes_need_new_api_and_full_tracking_witness:
  "map has_blendshapes (emitted (run PkgIndex no_throw decomposer
       (tl (session full_params [1] recording) @ [RunFrame 1 jaw_face])
       (fst (initialize PkgIndex (Some full_params) True new_extension)))) = [True, True]
   \<and> usingNewAPI (fst (initialize PkgIndex (Some full_params) True new_extension))
   \<and> fullTracking (fst (initialize PkgIndex (Some full_params) True new_extension))"
  using blendshapes_need_new_api_and_full_tracking [where evs =
      "tl (session full_params [1] recording) @ [RunFrame 1 jaw_face]"
      and w = "fst (initialize PkgIndex (Some full_params) True new_extension)"
      and T = no_throw and th = decomposer and i = PkgIndex and params = "Some full_params"
      and loads = True and u = new_extension]
  by (simp add: sample_defs method_defs emitted_def)

subsection \<open>The two files\<close>

lemma legacy_result_console:
  "legacy_result th (v\<lparr>console := c, fullTracking := f\<rparr>) g = legacy_result th v g"
  by (simp add: legacy_result_def)

lemma step_agree:
  assumes "\<not> selects_new_api e" and "\<not> usingNewAPI v"
  shows "step PkgIndex T th e (v\<lparr>console := c, fullTracking := f\<rparr>) =
           (step SrcIndex T th e v)
             \<lparr>console := console (step PkgIndex T th e (v\<lparr>console := c, fullTracking := f\<rparr>)),
              fullTracking := fullTracking (step PkgIndex T th e (v\<lparr>console := c, fullTracking := f\<rparr>))\<rparr>
         \<and> \<not> usingNewAPI (step SrcIndex T th e v)"
proof (cases e)
  case (Initialize params loads)
  then show ?thesis using assms
    by (cases params) (auto simp: initialize_def Let_def split: option.splits)
next
  case (OnStart camera)
  then show ?thesis using assms
    by (cases camera) (auto simp: on_start_def Let_def)
next
  case (OnLoad params)
  then show ?thesis using assms
    by (auto simp: on_load_def Let_def)
next
  case OnFinish
  then show ?thesis using assms
    by (auto simp: on_finish_def stopAnimationFrame_def Let_def split: option.splits)
next
  case (AddCallback l)
  then show ?thesis using assms by (auto simp: addTrackingResultCallback_def)
next
  case (RemoveCallback l)
  then show ?thesis using assms by (auto simp: removeTrackingResultCallback_def)
next
  case LoadedMetadata
  then show ?thesis using assms
    by (auto simp: onloadedmetadata_def requestAnimationFrame_def stopAnimationFrame_def
        split: option.splits)
next
  case (RunFrame h d)
  then show ?thesis using assms
    by (auto simp: processFrame_world)
next
  case (LegacyResults r)
  then show ?thesis using assms
    by (cases "multiFaceGeometry r") (auto simp: onMediaPipeResult_world legacy_result_console)
next
  case SendResolved
  then show ?thesis using assms
    by (auto simp: processFrame_resume_def requestAnimationFrame_def)
qed

lemma run_agree:
  assumes "\<forall>e\<in>set evs. \<not> selects_new_api e" and "\<not> usingNewAPI v"
  shows "\<exists>c' f'. run PkgIndex T th evs (v\<lparr>console := c, fullTracking := f\<rparr>) =
           (run SrcIndex T th evs v)\<lparr>console := c', fullTracking := f'\<rparr>"
  using assms
proof (induction evs arbitrary: v c f)
  case Nil
  then show ?case by (auto simp: run_Nil)
next
  case (Cons e evs)
  from Cons.prems have e: "\<not> selects_new_api e" and rest: "\<forall>e\<in>set evs. \<not> selects_new_api e"
    by simp_all
  from step_agree [OF e Cons.prems(2), where T = T and th = th and c = c and f = f]
  obtain c1 f1 where
    s: "step PkgIndex T th e (v\<lparr>console := c, fullTracking := f\<rparr>) =
          (step SrcIndex T th e v)\<lparr>console := c1, fullTracking := f1\<rparr>"
    and u: "\<not> usingNewAPI (step SrcIndex T th e v)"
    by blast
  from Cons.IH [OF rest u, where c = c1 and f = f1] show ?case
    by (simp add: run_Cons s)
qed

text \<open>
  Claim C2 says that the two files emit the same records and accumulate the same log for
  every backend result. For a frame of the new API they do not: one and the same session
  gives the listener a Unity object in \<^verbatim>\<open>src/src/index.ts\<close> and an
  \<^verbatim>\<open>IFaceTrackingResult\<close> in the package.
\<close>

theorem unity_and_package_records_differ:
  "calls (run SrcIndex no_throw decomposer
       (session full_params [1] recording @ [RunFrame 1 jaw_face]) new_extension) =
     [(1, Unity \<lparr>u_landmarks = [1 / 2, 1 / 4, 0], u_orientation = ''front'',
                 u_blendshapes = [(''jawOpen'', 4 / 5)], u_rotation = XYZ 0 0 0,
                 u_translation = XYZ (1 / 10) (1 / 5) (3 / 10)\<rparr>)]
   \<and> calls (run PkgIndex no_throw decomposer
       (session full_params [1] recording @ [RunFrame 1 jaw_face]) new_extension) =
     [(1, Tracking \<lparr>frame_id = Some 1, transformation = Some pose,
                    rotation = Some (XYZ 0 0 0), translation = Some (XYZ 10 20 30),
                    blendshapes = Some [(''jawOpen'', 4 / 5)]\<rparr>)]
   \<and> calls (run SrcIndex no_throw decomposer
       (session full_params [1] recording @ [RunFrame 1 jaw_face]) new_extension) \<noteq>
     calls (run PkgIndex no_throw decomposer
       (session full_params [1] recording @ [RunFrame 1 jaw_face]) new_extension)"
  by (simp add: sample_defs method_defs)

text \<open>
  Claim C2 as amended: for sessions of the old API (the instance does not use the new API
  at the start and no \<^verbatim>\<open>initialize\<close> selects it), the two files call the same listeners
  with the same records in the same order, accumulate the same log, return the same log
  from \<^verbatim>\<open>on_finish\<close> and keep the same registry, for every sequence of hooks, listener
  changes, frames and results.
\<close>

theorem legacy_sessions_agree:
  assumes "\<forall>e\<in>set evs. \<not> selects_new_api e" and "\<not> usingNewAPI w"
  shows "calls (run SrcIndex T th evs w) = calls (run PkgIndex T th evs w)
         \<and> recordedChunks (run SrcIndex T th evs w) = recordedChunks (run PkgIndex T th evs w)
         \<and> snd (on_finish (run SrcIndex T th evs w)) = snd (on_finish (run PkgIndex T th evs w))
         \<and> onResultCallbacks (run SrcIndex T th evs w) = onResultCallbacks (run PkgIndex T th evs w)"
proof -
  from run_agree [OF assms, where T = T and th = th and c = "console w" and f = "fullTracking w"]
  obtain c' f' where
    "run PkgIndex T th evs w = (run SrcIndex T th evs w)\<lparr>console := c', fullTracking := f'\<rparr>"
    by auto
  then show ?thesis
    by (simp add: on_finish_def stopAnimationFrame_def Let_def split: option.splits)
qed

theorem legacy_sessions_agree_witness:
  "calls (run SrcIndex no_throw decomposer
      (session legacy_params [1, 2] recording @
        [RunFrame 1 jaw_face, LegacyResults legacy_face, SendResolved, RemoveCallback 1, OnFinish])
      new_extension)
   = calls (run PkgIndex no_throw decomposer
      (session legacy_params [1, 2] recording @
        [RunFrame 1 jaw_face, LegacyResults legacy_face, SendResolved, RemoveCallback 1, OnFinish])
      new_extension)
   \<and> recordedChunks (run PkgIndex no_throw decomposer
      (session legacy_params [1, 2] recording @
        [RunFrame 1 jaw_face, LegacyResults legacy_face, SendResolved, RemoveCallback 1, OnFinish])
      new_extension)
   = [Tracking \<lparr>frame_id = Some 1, transformation = Some pose,
                 rotation = Some (XYZ 0 0 0), translation = Some (XYZ 10 20 30),
                 blendshapes = None\<rparr>]"
  using legacy_sessions_agree [where evs =
      "session legacy_params [1, 2] recording @
        [RunFrame 1 jaw_face, LegacyResults legacy_face, SendResolved, RemoveCallback 1, OnFinish]"
      and w = new_extension and T = no_throw and th = decomposer]
  by (simp add: sample_defs method_defs)

end
